theory Spec2Isabelle
  imports Main "HOL-Library.Sublist"
begin

section \<open>The krkn-ai analysis engine (package analysisengine)\<close>

text \<open>
  The engine orchestrates collaborators that live in other packages (the aggregator, the
  prompt store, the LLM client, the reporter registry) and in Go's standard library
  (the file system, the clock, the YAML encoder). Their code is not part of the package,
  so each of them is a parameter of the model: a field of the record \<open>env\<close>. Every call
  of a collaborator is appended, with its arguments, to a trace of events, the model's
  view of the outside world, so that what the engine did (and did not do) can be read
  off the trace. Only \<open>filepath.Join\<close>, which computes a path from two strings, is not
  recorded.

  Values whose Go types are declared in those other packages (scenario lists, the
  health-check report, fitness scores, the collaborator handles, ...) are only ever
  copied by the engine. They are values of one type parameter \<open>'o\<close>.

  Modelling conventions:
  \<^item> a Go pointer that the code tests against \<open>nil\<close> is an \<open>option\<close>;
  \<^item> a Go slice is \<open>'a list option\<close>, the \<open>nil\<close> slice being \<open>None\<close>;
  \<^item> a \<open>map[string]any\<close> literal is the list of its entries in source order
    (the keys of a Go map literal are distinct), read through \<open>map_of\<close>;
  \<^item> a Go \<open>(*T, error)\<close> return is a pair of options; a nil-pointer dereference is the
    outcome \<open>Panic\<close>;
  \<^item> Go's \<open>int\<close> is \<open>int\<close>: the only arithmetic is a counter bounded by the length of
    a slice, which cannot reach \<open>2 ^ 63\<close>;
  \<^item> the \<open>context.Context\<close> argument is only passed on and is left out;
  \<^item> a collaborator that reports success returns a non-nil value, and the slice of
    tool calls that the LLM client returns has no nil element.
\<close>

subsection \<open>Errors and return values\<close>

text \<open>\<open>Errorf msg\<close> is \<open>fmt.Errorf(msg)\<close>; \<open>Wrapf msg err\<close> is \<open>fmt.Errorf(msg + ": %w", err)\<close>.\<close>

datatype error = Errorf string | Wrapf string error

fun error_string :: "error \<Rightarrow> string" where
  "error_string (Errorf msg) = msg"
| "error_string (Wrapf msg err) = msg @ '': '' @ error_string err"

type_synonym 'a go_return = "'a option \<times> error option"

datatype 'a go_outcome = Panic | Return 'a

fun elems :: "'a list option \<Rightarrow> 'a list" where
  "elems None = []"
| "elems (Some xs) = xs"

subsection \<open>Data of the collaborating packages, as far as the engine reads it\<close>

record 'o KrknAISummary =
  TotalScenarioCount :: int
  SuccessfulScenarioCount :: int
  FailedScenarioCount :: int
  Generations :: int
  MaxFitnessScore :: 'o
  AvgFitnessScore :: 'o
  ScenarioTypes :: 'o

record 'o KrknAIData =
  Summary :: "'o KrknAISummary"
  TopScenarios :: 'o
  FailedScenarios :: 'o
  HealthCheckReport :: 'o
  LogArtifacts :: 'o
  ConfigSummary :: 'o

text \<open>
  \<open>llm.AnalysisConfig\<close>: the three parameters the engine may override are pointers;
  \<open>OtherFields\<close> stands for whatever else the type declares.
\<close>

record 'o llm_AnalysisConfig =
  Temperature :: "'o option"
  MaxTokens :: "'o option"
  TopP :: "'o option"
  OtherFields :: 'o

record 'o genai_FunctionCall =
  Name :: string
  fc_OtherFields :: 'o

record 'o llm_AnalysisResult =
  llm_Content :: string
  llm_ToolCalls :: "'o genai_FunctionCall list option"

record 'o reporter_ReporterConfig =
  Type :: string
  rc_OtherFields :: 'o

record 'o reporter_NotificationConfig =
  Enabled :: bool
  Reporters :: "'o reporter_ReporterConfig list option"

text \<open>The dynamically typed values (\<open>any\<close>) that the engine stores in its maps.\<close>

datatype 'o any =
    AString string
  | AInt int
  | AOpaque 'o
  | ASummary "'o KrknAISummary"
  | AMap "(string \<times> 'o any) list"

type_synonym 'o gomap = "(string \<times> 'o any) list"

record 'o reporter_AnalysisResult =
  rep_Status :: string
  rep_Content :: string
  rep_Metadata :: "'o gomap"
  rep_Error :: string
  rep_Prompt :: string

subsection \<open>The package's own types\<close>

definition analysisDirName :: string where
  "analysisDirName = ''llm-analysis''"

definition summaryFileName :: string where
  "summaryFileName = ''summary.yaml''"

definition krknAIPromptTemplate :: string where
  "krknAIPromptTemplate = ''krknai''"

record 'o Config =
  ResultsDir :: string
  APIKey :: string
  LLMConfig :: "'o llm_AnalysisConfig option"
  NotificationConfig :: "'o reporter_NotificationConfig option"
  TopScenariosCount :: int

record 'o Result =
  Status :: string
  Content :: string
  Metadata :: "'o gomap"
  Error :: string
  Prompt :: string
  ToolCalls :: "'o genai_FunctionCall list option"

text \<open>
  \<open>New\<close> is the only constructor of an engine and dereferences its configuration before
  it builds one, so the \<open>config\<close> of an engine is never nil.
\<close>

record 'o Engine =
  config :: "'o Config"
  aggregator :: 'o
  promptStore :: 'o
  llmClient :: 'o
  reporterRegistry :: 'o

subsection \<open>The outside world\<close>

datatype 'o event =
    CallNewKrknAIAggregator
  | CallWithTopScenariosCount int
  | CallSub string
  | CallNewPromptStore 'o
  | CallNewGeminiClient string
  | CallNewReporterRegistry
  | CallNewSlackReporter
  | CallRegister 'o 'o
  | CallCollect 'o string
  | CallNewRegistry 'o
  | CallRenderPrompt 'o string "'o gomap"
  | CallAnalyze 'o string "'o llm_AnalysisConfig" 'o
  | CallMkdirAll string nat
  | CallNow
  | CallMarshal "'o any"
  | CallWriteFile string string nat
  | CallSendNotification 'o "'o reporter_AnalysisResult" "'o reporter_ReporterConfig"
  | WriteStderr string

type_synonym 'o world = "'o event list"

text \<open>
  The collaborators. Within one run each of them is called at most once, except
  \<open>SendNotification\<close>, whose answer may therefore depend on everything that happened
  before the call. \<open>Now_RFC3339\<close> is \<open>time.Now().Format(time.RFC3339)\<close>.
\<close>

record 'o env =
  NewKrknAIAggregator :: 'o
  WithTopScenariosCount :: "'o \<Rightarrow> int \<Rightarrow> 'o"
  Sub :: "string \<Rightarrow> error + 'o"
  NewPromptStore :: "'o \<Rightarrow> error + 'o"
  NewGeminiClient :: "string \<Rightarrow> error + 'o"
  NewReporterRegistry :: 'o
  NewSlackReporter :: 'o
  Register :: "'o \<Rightarrow> 'o \<Rightarrow> 'o"
  Collect :: "'o \<Rightarrow> string \<Rightarrow> error + 'o KrknAIData"
  NewRegistry :: "'o \<Rightarrow> 'o"
  RenderPrompt :: "'o \<Rightarrow> string \<Rightarrow> 'o gomap \<Rightarrow> error + (string \<times> 'o llm_AnalysisConfig)"
  Analyze :: "'o \<Rightarrow> string \<Rightarrow> 'o llm_AnalysisConfig \<Rightarrow> 'o \<Rightarrow> error + 'o llm_AnalysisResult"
  Join :: "string \<Rightarrow> string \<Rightarrow> string"
  MkdirAll :: "string \<Rightarrow> nat \<Rightarrow> error option"
  Now_RFC3339 :: string
  Marshal :: "'o any \<Rightarrow> error + string"
  WriteFile :: "string \<Rightarrow> string \<Rightarrow> nat \<Rightarrow> error option"
  SendNotification :: "'o world \<Rightarrow> 'o \<Rightarrow> 'o reporter_AnalysisResult \<Rightarrow> 'o reporter_ReporterConfig \<Rightarrow> error option"

subsection \<open>New\<close>

definition New :: "'o env \<Rightarrow> 'o Config option \<Rightarrow> 'o world \<Rightarrow> 'o Engine go_return go_outcome \<times> 'o world" where
  "New env config_ptr w =
    (case config_ptr of
       None \<Rightarrow> (Panic, w)
     | Some conf \<Rightarrow>
        (if ResultsDir conf = [] then
           (Return (None, Some (Errorf ''results directory is required'')), w)
         else if APIKey conf = [] then
           (Return (None, Some (Errorf ''GEMINI_API_KEY is required for krkn-ai analysis'')), w)
         else
           (let w1 = w @ [CallNewKrknAIAggregator];
                agg0 = NewKrknAIAggregator env;
                (agg, w2) =
                  (if TopScenariosCount conf > 0
                   then (WithTopScenariosCount env agg0 (TopScenariosCount conf),
                         w1 @ [CallWithTopScenariosCount (TopScenariosCount conf)])
                   else (agg0, w1));
                w3 = w2 @ [CallSub ''prompts'']
            in (case Sub env ''prompts'' of
                  Inl err \<Rightarrow>
                    (Return (None, Some (Wrapf ''failed to access embedded prompts'' err)), w3)
                | Inr templatesFS \<Rightarrow>
                   (let w4 = w3 @ [CallNewPromptStore templatesFS]
                    in (case NewPromptStore env templatesFS of
                          Inl err \<Rightarrow>
                            (Return (None, Some (Wrapf ''failed to initialize prompt store'' err)), w4)
                        | Inr store \<Rightarrow>
                           (let w5 = w4 @ [CallNewGeminiClient (APIKey conf)]
                            in (case NewGeminiClient env (APIKey conf) of
                                  Inl err \<Rightarrow>
                                    (Return (None, Some (Wrapf ''failed to initialize LLM client'' err)), w5)
                                | Inr client \<Rightarrow>
                                   (let registry0 = NewReporterRegistry env;
                                        slack = NewSlackReporter env;
                                        registry = Register env registry0 slack;
                                        w6 = w5 @ [CallNewReporterRegistry, CallNewSlackReporter,
                                                   CallRegister registry0 slack]
                                    in (Return (Some \<lparr>config = conf, aggregator = agg,
                                                       promptStore = store, llmClient = client,
                                                       reporterRegistry = registry\<rparr>, None),
                                        w6))))))))))"

subsection \<open>writeSummary\<close>

text \<open>The permission bits \<open>0o755\<close> and \<open>0o644\<close>, in decimal.\<close>

definition perm_0o755 :: nat where
  "perm_0o755 = 493"

definition perm_0o644 :: nat where
  "perm_0o644 = 420"

text \<open>The document \<open>summary\<close> that \<open>writeSummary\<close> builds before it encodes it.\<close>

definition writeSummary_summary :: "'o env \<Rightarrow> 'o Result \<Rightarrow> 'o KrknAIData \<Rightarrow> 'o any" where
  "writeSummary_summary env result data = AMap
     [(''timestamp'', AString (Now_RFC3339 env)),
      (''analysis_type'', AString ''krknai''),
      (''run_summary'', AMap
         [(''total_scenarios'', AInt (TotalScenarioCount (Summary data))),
          (''successful_scenarios'', AInt (SuccessfulScenarioCount (Summary data))),
          (''failed_scenarios'', AInt (FailedScenarioCount (Summary data))),
          (''generations'', AInt (Generations (Summary data))),
          (''max_fitness_score'', AOpaque (MaxFitnessScore (Summary data))),
          (''avg_fitness_score'', AOpaque (AvgFitnessScore (Summary data))),
          (''scenario_types'', AOpaque (ScenarioTypes (Summary data)))]),
      (''top_scenarios'', AOpaque (TopScenarios data)),
      (''failed_scenarios'', AOpaque (FailedScenarios data)),
      (''status'', AString (Status result)),
      (''prompt'', AString (Prompt result)),
      (''response'', AString (Content result)),
      (''metadata'', AMap (Metadata result)),
      (''error'', AString (Error result))]"

definition writeSummary :: "'o env \<Rightarrow> 'o Engine \<Rightarrow> 'o Result \<Rightarrow> 'o KrknAIData \<Rightarrow> 'o world \<Rightarrow> error option \<times> 'o world" where
  "writeSummary env e result data w =
    (let analysisDir = Join env (ResultsDir (config e)) analysisDirName;
         w1 = w @ [CallMkdirAll analysisDir perm_0o755]
     in (case MkdirAll env analysisDir perm_0o755 of
           Some err \<Rightarrow> (Some (Wrapf ''failed to create analysis directory'' err), w1)
         | None \<Rightarrow>
            (let summary = writeSummary_summary env result data;
                 w2 = w1 @ [CallNow, CallMarshal summary]
             in (case Marshal env summary of
                   Inl err \<Rightarrow> (Some (Wrapf ''failed to marshal summary to YAML'' err), w2)
                 | Inr yamlData \<Rightarrow>
                    (let summaryPath = Join env analysisDir summaryFileName;
                         w3 = w2 @ [CallWriteFile summaryPath yamlData perm_0o644]
                     in (case WriteFile env summaryPath yamlData perm_0o644 of
                           Some err \<Rightarrow> (Some (Wrapf ''failed to write summary file'' err), w3)
                         | None \<Rightarrow> (None, w3)))))))"

subsection \<open>sendNotifications\<close>

text \<open>
  The body of the loop over \<open>e.config.NotificationConfig.Reporters\<close>: one call of
  \<open>SendNotification\<close> for the entry, and a warning on standard error when it fails.
\<close>

fun sendNotifications_loop :: "'o env \<Rightarrow> 'o Engine \<Rightarrow> 'o reporter_AnalysisResult \<Rightarrow> 'o reporter_ReporterConfig list \<Rightarrow> 'o world \<Rightarrow> 'o world" where
  "sendNotifications_loop env e reporterResult [] w = w"
| "sendNotifications_loop env e reporterResult (reporterConfig # rest) w =
    (let w1 = w @ [CallSendNotification (reporterRegistry e) reporterResult reporterConfig]
     in (case SendNotification env w (reporterRegistry e) reporterResult reporterConfig of
           Some err \<Rightarrow>
             sendNotifications_loop env e reporterResult rest
               (w1 @ [WriteStderr (''Warning: Failed to send notification via '' @ Type reporterConfig
                                   @ '': '' @ error_string err @ [CHR 0x0A])])
         | None \<Rightarrow> sendNotifications_loop env e reporterResult rest w1))"

text \<open>The \<open>reporter.AnalysisResult\<close> that \<open>sendNotifications\<close> hands to every reporter.\<close>

definition sendNotifications_reporterResult :: "'o Result \<Rightarrow> 'o reporter_AnalysisResult" where
  "sendNotifications_reporterResult result =
     \<lparr>rep_Status = Status result, rep_Content = Content result,
      rep_Metadata = Metadata result, rep_Error = Error result,
      rep_Prompt = Prompt result\<rparr>"

definition sendNotifications :: "'o env \<Rightarrow> 'o Engine \<Rightarrow> 'o Result \<Rightarrow> 'o world \<Rightarrow> unit go_outcome \<times> 'o world" where
  "sendNotifications env e result w =
    (let reporterResult = sendNotifications_reporterResult result
     in (case NotificationConfig (config e) of
           None \<Rightarrow> (Panic, w)
         | Some nc \<Rightarrow>
             (Return (), sendNotifications_loop env e reporterResult (elems (Reporters nc)) w)))"

subsection \<open>Run\<close>

text \<open>The anonymous function that counts the \<open>read_file\<close> calls, with its counter.\<close>

fun count_read_file :: "'o genai_FunctionCall list \<Rightarrow> int \<Rightarrow> int" where
  "count_read_file [] count = count"
| "count_read_file (tc # rest) count =
    count_read_file rest (if Name tc = ''read_file'' then count + 1 else count)"

text \<open>The template variables \<open>vars\<close> that \<open>Run\<close> passes to the prompt store.\<close>

definition Run_vars :: "'o KrknAIData \<Rightarrow> 'o gomap" where
  "Run_vars data =
     [(''Summary'', ASummary (Summary data)),
      (''TopScenarios'', AOpaque (TopScenarios data)),
      (''FailedScenarios'', AOpaque (FailedScenarios data)),
      (''HealthCheckReport'', AOpaque (HealthCheckReport data)),
      (''LogArtifacts'', AOpaque (LogArtifacts data)),
      (''ConfigSummary'', AOpaque (ConfigSummary data))]"

text \<open>
  The block "Apply LLM config overrides": \<open>llmConfig\<close> after the three guarded
  assignments, from the engine's \<open>LLMConfig\<close> pointer and the configuration that the
  template supplied.
\<close>

definition Run_llmConfig :: "'o llm_AnalysisConfig option \<Rightarrow> 'o llm_AnalysisConfig \<Rightarrow> 'o llm_AnalysisConfig" where
  "Run_llmConfig override_ptr llmConfig0 =
    (case override_ptr of
       None \<Rightarrow> llmConfig0
     | Some override \<Rightarrow>
        (let c1 = (case Temperature override of
                     Some t \<Rightarrow> llmConfig0\<lparr>Temperature := Some t\<rparr>
                   | None \<Rightarrow> llmConfig0);
             c2 = (case MaxTokens override of
                     Some m \<Rightarrow> c1\<lparr>MaxTokens := Some m\<rparr>
                   | None \<Rightarrow> c1);
             c3 = (case TopP override of
                     Some p \<Rightarrow> c2\<lparr>TopP := Some p\<rparr>
                   | None \<Rightarrow> c2)
         in c3))"

text \<open>The \<open>Result\<close> literal \<open>analysisResult\<close>; the fields it leaves out have their zero values.\<close>

definition Run_analysisResult :: "'o KrknAIData \<Rightarrow> string \<Rightarrow> 'o llm_AnalysisResult \<Rightarrow> 'o Result" where
  "Run_analysisResult data userPrompt result =
     \<lparr>Status = ''completed'',
      Content = llm_Content result,
      Metadata =
        [(''analysis_type'', AString ''krknai''),
         (''total_scenarios'', AInt (TotalScenarioCount (Summary data))),
         (''successful_scenarios'', AInt (SuccessfulScenarioCount (Summary data))),
         (''failed_scenarios'', AInt (FailedScenarioCount (Summary data))),
         (''generations'', AInt (Generations (Summary data))),
         (''max_fitness_score'', AOpaque (MaxFitnessScore (Summary data))),
         (''artifacts_examined'', AInt (count_read_file (elems (llm_ToolCalls result)) 0)),
         (''tool_calls'', AInt (int (length (elems (llm_ToolCalls result)))))],
      Error = [],
      Prompt = userPrompt,
      ToolCalls = None\<rparr>"

definition Run :: "'o env \<Rightarrow> 'o Engine \<Rightarrow> 'o world \<Rightarrow> 'o Result go_return go_outcome \<times> 'o world" where
  "Run env e w =
    (let w1 = w @ [CallCollect (aggregator e) (ResultsDir (config e))]
     in (case Collect env (aggregator e) (ResultsDir (config e)) of
           Inl err \<Rightarrow> (Return (None, Some (Wrapf ''failed to collect krkn-ai results'' err)), w1)
         | Inr data \<Rightarrow>
            (let toolRegistry = NewRegistry env (LogArtifacts data);
                 vars = Run_vars data;
                 w2 = w1 @ [CallNewRegistry (LogArtifacts data),
                            CallRenderPrompt (promptStore e) krknAIPromptTemplate vars]
             in (case RenderPrompt env (promptStore e) krknAIPromptTemplate vars of
                   Inl err \<Rightarrow> (Return (None, Some (Wrapf ''failed to render prompt'' err)), w2)
                 | Inr (userPrompt, llmConfig0) \<Rightarrow>
                    (let llmConfig = Run_llmConfig (LLMConfig (config e)) llmConfig0;
                         w3 = w2 @ [CallAnalyze (llmClient e) userPrompt llmConfig toolRegistry]
                     in (case Analyze env (llmClient e) userPrompt llmConfig toolRegistry of
                           Inl err \<Rightarrow> (Return (None, Some (Wrapf ''LLM analysis failed'' err)), w3)
                         | Inr result \<Rightarrow>
                            (let analysisResult = Run_analysisResult data userPrompt result
                             in (case writeSummary env e analysisResult data w3 of
                                   (Some err, w4) \<Rightarrow>
                                     (Return (None, Some (Wrapf ''failed to write analysis summary'' err)), w4)
                                 | (None, w4) \<Rightarrow>
                                    (if (case NotificationConfig (config e) of
                                           None \<Rightarrow> False | Some nc \<Rightarrow> Enabled nc)
                                     then (case sendNotifications env e analysisResult w4 of
                                             (Panic, w5) \<Rightarrow> (Panic, w5)
                                           | (Return u, w5) \<Rightarrow> (Return (Some analysisResult, None), w5))
                                     else (Return (Some analysisResult, None), w4))))))))))"

subsection \<open>Reading the trace\<close>

text \<open>The variable mappings of the \<open>RenderPrompt\<close> calls in a trace, in order.\<close>

fun rendered_vars :: "'o world \<Rightarrow> 'o gomap list" where
  "rendered_vars [] = []"
| "rendered_vars (CallRenderPrompt store tid vars # w) = vars # rendered_vars w"
| "rendered_vars (ev # w) = rendered_vars w"



subsection \<open>A deterministic fake of the collaborators\<close>

text \<open>
  One concrete run, used to evaluate the model: fifty scenarios of which five failed, a
  model answer after two \<open>read_file\<close> calls and one other tool call, a caller who
  overrides the maximum of tokens and top-p but not the temperature, and two reporter
  entries of which the first (\<open>email\<close>) has no handler and fails.
\<close>

definition fake_summary :: "string KrknAISummary" where
  "fake_summary = \<lparr>TotalScenarioCount = 50, SuccessfulScenarioCount = 45,
     FailedScenarioCount = 5, Generations = 10, MaxFitnessScore = ''0.97'',
     AvgFitnessScore = ''0.61'', ScenarioTypes = ''pod: 30, node: 20''\<rparr>"

definition fake_data :: "string KrknAIData" where
  "fake_data = \<lparr>Summary = fake_summary, TopScenarios = ''top'', FailedScenarios = ''failed'',
     HealthCheckReport = ''health'', LogArtifacts = ''logs'', ConfigSummary = ''cfg''\<rparr>"

definition fake_tool_calls :: "string genai_FunctionCall list" where
  "fake_tool_calls = [\<lparr>Name = ''read_file'', fc_OtherFields = ''a.log''\<rparr>,
                      \<lparr>Name = ''read_file'', fc_OtherFields = ''b.log''\<rparr>,
                      \<lparr>Name = ''other_tool'', fc_OtherFields = ''x''\<rparr>]"

definition fake_env :: "string env" where
  "fake_env = \<lparr>
     NewKrknAIAggregator = ''agg'',
     WithTopScenariosCount = (\<lambda>agg n. agg),
     Sub = (\<lambda>dir. Inr ''fs''),
     NewPromptStore = (\<lambda>fs. Inr ''store''),
     NewGeminiClient = (\<lambda>key. Inr ''client''),
     NewReporterRegistry = ''registry'',
     NewSlackReporter = ''slack'',
     Register = (\<lambda>registry reporter. registry),
     Collect = (\<lambda>agg dir. Inr fake_data),
     NewRegistry = (\<lambda>artifacts. ''tools''),
     RenderPrompt = (\<lambda>store tid vars. Inr (''prompt'',
        \<lparr>Temperature = Some ''0.2'', MaxTokens = Some ''4096'', TopP = None,
         OtherFields = ''model''\<rparr>)),
     Analyze = (\<lambda>client prompt cfg reg.
        Inr \<lparr>llm_Content = ''report'', llm_ToolCalls = Some fake_tool_calls\<rparr>),
     Join = (\<lambda>dir name. dir @ ''/'' @ name),
     MkdirAll = (\<lambda>path perm. None),
     Now_RFC3339 = ''2026-01-01T00:00:00Z'',
     Marshal = (\<lambda>doc. Inr ''yaml''),
     WriteFile = (\<lambda>path bytes perm. None),
     SendNotification = (\<lambda>w registry res rc.
        if Type rc = ''slack'' then None else Some (Errorf ''no reporter''))\<rparr>"

text \<open>
  The same collaborators on a full disk: writing the encoded document fails, while an
  empty file could still be written.
\<close>

definition fake_disk_full_env :: "string env" where
  "fake_disk_full_env = fake_env\<lparr>WriteFile :=
     (\<lambda>path bytes perm. if bytes = [] then None else Some (Errorf ''disk full''))\<rparr>"

definition fake_config :: "string Config" where
  "fake_config = \<lparr>ResultsDir = ''/r'', APIKey = ''key'',
     LLMConfig = Some \<lparr>Temperature = None, MaxTokens = Some ''1024'', TopP = Some ''0.9'',
                       OtherFields = ''ignored''\<rparr>,
     NotificationConfig = Some \<lparr>Enabled = True,
        Reporters = Some [\<lparr>Type = ''email'', rc_OtherFields = ''ops''\<rparr>,
                          \<lparr>Type = ''slack'', rc_OtherFields = ''hook''\<rparr>]\<rparr>,
     TopScenariosCount = 5\<rparr>"

definition fake_engine :: "string Engine" where
  "fake_engine = \<lparr>config = fake_config, aggregator = ''agg'', promptStore = ''store'',
     llmClient = ''client'', reporterRegistry = ''registry''\<rparr>"

definition fake_result :: "string Result" where
  "fake_result = \<lparr>Status = ''completed'', Content = ''report'',
     Metadata = [(''analysis_type'', AString ''krknai''),
                 (''total_scenarios'', AInt 50),
                 (''successful_scenarios'', AInt 45),
                 (''failed_scenarios'', AInt 5),
                 (''generations'', AInt 10),
                 (''max_fitness_score'', AOpaque ''0.97''),
                 (''artifacts_examined'', AInt 2),
                 (''tool_calls'', AInt 3)],
     Error = [], Prompt = ''prompt'', ToolCalls = None\<rparr>"

definition fake_llmConfig :: "string llm_AnalysisConfig" where
  "fake_llmConfig = \<lparr>Temperature = Some ''0.2'', MaxTokens = Some ''1024'',
     TopP = Some ''0.9'', OtherFields = ''model''\<rparr>"

definition fake_trace :: "string world" where
  "fake_trace =
     [CallCollect ''agg'' ''/r'',
      CallNewRegistry ''logs'',
      CallRenderPrompt ''store'' ''krknai'' (Run_vars fake_data),
      CallAnalyze ''client'' ''prompt'' fake_llmConfig ''tools'',
      CallMkdirAll ''/r/llm-analysis'' 493,
      CallNow,
      CallMarshal (writeSummary_summary fake_env fake_result fake_data),
      CallWriteFile ''/r/llm-analysis/summary.yaml'' ''yaml'' 420,
      CallSendNotification ''registry'' (sendNotifications_reporterResult fake_result)
        \<lparr>Type = ''email'', rc_OtherFields = ''ops''\<rparr>,
      WriteStderr (''Warning: Failed to send notification via email: no reporter'' @ [CHR 0x0A]),
      CallSendNotification ''registry'' (sendNotifications_reporterResult fake_result)
        \<lparr>Type = ''slack'', rc_OtherFields = ''hook''\<rparr>]"

section \<open>Properties\<close>

subsection \<open>Auxiliary facts\<close>

lemma count_read_file_acc:
  "count_read_file tcs n = n + int (length (filter (\<lambda>tc. Name tc = ''read_file'') tcs))"
  by (induction tcs arbitrary: n) auto


lemma rendered_vars_append: "rendered_vars (u @ v) = rendered_vars u @ rendered_vars v"
  by (induction u rule: rendered_vars.induct) simp_all

lemma loop_prefix: "prefix pre w \<Longrightarrow> prefix pre (sendNotifications_loop env e rr cs w)"
proof (induction cs arbitrary: w)
  case Nil
  then show ?case by simp
next
  case (Cons c cs)
  then show ?case
    by (cases "SendNotification env w (reporterRegistry e) rr c") (simp_all add: Let_def)
qed



lemma loop_rendered:
  "rendered_vars (sendNotifications_loop env e rr cs w) = rendered_vars w"
proof (induction cs arbitrary: w)
  case Nil
  then show ?case by simp
next
  case (Cons c cs)
  then show ?case
    by (cases "SendNotification env w (reporterRegistry e) rr c")
       (simp_all add: Let_def rendered_vars_append)
qed

lemma loop_events:
  "\<exists>post. sendNotifications_loop env e rr cs w = w @ post
      \<and> (\<forall>ev \<in> set post. (\<exists>c. ev = CallSendNotification (reporterRegistry e) rr c)
                            \<or> (\<exists>line. ev = WriteStderr line))"
proof (induction cs arbitrary: w)
  case Nil
  then show ?case by simp
next
  case (Cons c cs)
  show ?case
  proof (cases "SendNotification env w (reporterRegistry e) rr c")
    case None
    from Cons [of "w @ [CallSendNotification (reporterRegistry e) rr c]"] obtain post where
      "sendNotifications_loop env e rr cs (w @ [CallSendNotification (reporterRegistry e) rr c])
         = (w @ [CallSendNotification (reporterRegistry e) rr c]) @ post"
      "\<forall>ev \<in> set post. (\<exists>c. ev = CallSendNotification (reporterRegistry e) rr c)
                            \<or> (\<exists>line. ev = WriteStderr line)"
      by blast
    with None show ?thesis
      by (intro exI [where x = "CallSendNotification (reporterRegistry e) rr c # post"])
         (auto simp: Let_def)
  next
    case (Some err)
    let ?line = "''Warning: Failed to send notification via '' @ Type c
                   @ '': '' @ error_string err @ [CHR 0x0A]"
    from Cons [of "w @ [CallSendNotification (reporterRegistry e) rr c] @ [WriteStderr ?line]"]
    obtain post where
      "sendNotifications_loop env e rr cs
         (w @ [CallSendNotification (reporterRegistry e) rr c] @ [WriteStderr ?line])
         = (w @ [CallSendNotification (reporterRegistry e) rr c] @ [WriteStderr ?line]) @ post"
      "\<forall>ev \<in> set post. (\<exists>c. ev = CallSendNotification (reporterRegistry e) rr c)
                            \<or> (\<exists>line. ev = WriteStderr line)"
      by blast
    with Some show ?thesis
      by (intro exI [where x = "CallSendNotification (reporterRegistry e) rr c
                                  # WriteStderr ?line # post"])
         (auto simp: Let_def)
  qed
qed

lemma writeSummary_None:
  "writeSummary env e r d w = (None, w') \<longleftrightarrow>
     (\<exists>y. MkdirAll env (Join env (ResultsDir (config e)) analysisDirName) perm_0o755 = None
        \<and> Marshal env (writeSummary_summary env r d) = Inr y
        \<and> WriteFile env (Join env (Join env (ResultsDir (config e)) analysisDirName) summaryFileName)
              y perm_0o644 = None
        \<and> w' = w @ [CallMkdirAll (Join env (ResultsDir (config e)) analysisDirName) perm_0o755,
                    CallNow, CallMarshal (writeSummary_summary env r d),
                    CallWriteFile (Join env (Join env (ResultsDir (config e)) analysisDirName)
                                        summaryFileName) y perm_0o644])"
  unfolding writeSummary_def Let_def
  by (auto split: option.splits sum.splits)


lemma writeSummary_prefix: "prefix w (snd (writeSummary env e r d w))"
  unfolding writeSummary_def Let_def
  by (auto split: option.splits sum.splits)

lemma writeSummary_rendered:
  "writeSummary env e r d w = (err, w') \<Longrightarrow> rendered_vars w' = rendered_vars w"
  unfolding writeSummary_def Let_def
  by (auto split: option.splits sum.splits simp: rendered_vars_append)

lemma writeSummary_summary_entries:
  "\<exists>summary. writeSummary_summary env r data = AMap summary
     \<and> fst ` set summary =
          {''timestamp'', ''analysis_type'', ''run_summary'', ''top_scenarios'',
           ''failed_scenarios'', ''status'', ''prompt'', ''response'', ''metadata'', ''error''}
     \<and> map_of summary ''timestamp'' = Some (AString (Now_RFC3339 env))
     \<and> map_of summary ''analysis_type'' = Some (AString ''krknai'')
     \<and> map_of summary ''run_summary'' = Some (AMap
         [(''total_scenarios'', AInt (TotalScenarioCount (Summary data))),
          (''successful_scenarios'', AInt (SuccessfulScenarioCount (Summary data))),
          (''failed_scenarios'', AInt (FailedScenarioCount (Summary data))),
          (''generations'', AInt (Generations (Summary data))),
          (''max_fitness_score'', AOpaque (MaxFitnessScore (Summary data))),
          (''avg_fitness_score'', AOpaque (AvgFitnessScore (Summary data))),
          (''scenario_types'', AOpaque (ScenarioTypes (Summary data)))])
     \<and> map_of summary ''top_scenarios'' = Some (AOpaque (TopScenarios data))
     \<and> map_of summary ''failed_scenarios'' = Some (AOpaque (FailedScenarios data))
     \<and> map_of summary ''status'' = Some (AString (Status r))
     \<and> map_of summary ''prompt'' = Some (AString (Prompt r))
     \<and> map_of summary ''response'' = Some (AString (Content r))
     \<and> map_of summary ''metadata'' = Some (AMap (Metadata r))
     \<and> map_of summary ''error'' = Some (AString (Error r))"
  by (simp add: writeSummary_summary_def)

lemma Run_ok_iff:
  "Run env e w = (Return (res, None), w') \<longleftrightarrow>
   (\<exists>data userPrompt llmConfig0 result w4.
      Collect env (aggregator e) (ResultsDir (config e)) = Inr data
    \<and> RenderPrompt env (promptStore e) krknAIPromptTemplate (Run_vars data)
        = Inr (userPrompt, llmConfig0)
    \<and> Analyze env (llmClient e) userPrompt (Run_llmConfig (LLMConfig (config e)) llmConfig0)
          (NewRegistry env (LogArtifacts data)) = Inr result
    \<and> writeSummary env e (Run_analysisResult data userPrompt result) data
          (w @ [CallCollect (aggregator e) (ResultsDir (config e)),
                CallNewRegistry (LogArtifacts data),
                CallRenderPrompt (promptStore e) krknAIPromptTemplate (Run_vars data),
                CallAnalyze (llmClient e) userPrompt
                  (Run_llmConfig (LLMConfig (config e)) llmConfig0)
                  (NewRegistry env (LogArtifacts data))]) = (None, w4)
    \<and> res = Some (Run_analysisResult data userPrompt result)
    \<and> w' = (case NotificationConfig (config e) of
               None \<Rightarrow> w4
             | Some nc \<Rightarrow>
                 if Enabled nc
                 then sendNotifications_loop env e
                        (sendNotifications_reporterResult (Run_analysisResult data userPrompt result))
                        (elems (Reporters nc)) w4
                 else w4))"
  unfolding Run_def Let_def sendNotifications_def
  by (auto split: sum.splits option.splits prod.splits if_splits go_outcome.splits)

lemma Run_outcome:
  "(\<exists>r. fst (Run env e w) = Return (Some r, None)) \<or> (\<exists>err. fst (Run env e w) = Return (None, Some err))"
  unfolding Run_def Let_def sendNotifications_def
  by (auto split: sum.splits option.splits prod.splits if_splits go_outcome.splits)

lemma notify_stage_prefix:
  "prefix w4 (case nc_ptr of
               None \<Rightarrow> w4
             | Some nc \<Rightarrow>
                 if Enabled nc then sendNotifications_loop env e rr (elems (Reporters nc)) w4
                 else w4)"
  by (auto split: option.splits intro: loop_prefix)

lemma Run_rendered_prefix:
  assumes "Collect env (aggregator e) (ResultsDir (config e)) = Inr data"
      and "RenderPrompt env (promptStore e) krknAIPromptTemplate (Run_vars data)
             = Inr (userPrompt, llmConfig0)"
  shows "prefix (w @ [CallCollect (aggregator e) (ResultsDir (config e)),
                CallNewRegistry (LogArtifacts data),
                CallRenderPrompt (promptStore e) krknAIPromptTemplate (Run_vars data),
                CallAnalyze (llmClient e) userPrompt
                  (Run_llmConfig (LLMConfig (config e)) llmConfig0)
                  (NewRegistry env (LogArtifacts data))]) (snd (Run env e w))"
proof (cases "Analyze env (llmClient e) userPrompt (Run_llmConfig (LLMConfig (config e)) llmConfig0)
          (NewRegistry env (LogArtifacts data))")
  case (Inl err)
  with assms show ?thesis by (simp add: Run_def)
next
  case (Inr result)
  let ?w3 = "w @ [CallCollect (aggregator e) (ResultsDir (config e)),
                CallNewRegistry (LogArtifacts data),
                CallRenderPrompt (promptStore e) krknAIPromptTemplate (Run_vars data),
                CallAnalyze (llmClient e) userPrompt
                  (Run_llmConfig (LLMConfig (config e)) llmConfig0)
                  (NewRegistry env (LogArtifacts data))]"
  let ?ar = "Run_analysisResult data userPrompt result"
  obtain werr w4 where ws: "writeSummary env e ?ar data ?w3 = (werr, w4)"
    by (cases "writeSummary env e ?ar data ?w3")
  have p4: "prefix ?w3 w4"
    using writeSummary_prefix [of ?w3 env e ?ar data] ws by simp
  show ?thesis
  proof (cases werr)
    case (Some err)
    with assms Inr ws p4 show ?thesis by (simp add: Run_def)
  next
    case None
    have "prefix w4 (snd (Run env e w))"
      using assms Inr ws None
      by (auto simp: Run_def Let_def sendNotifications_def split: option.splits intro: loop_prefix)
    with p4 show ?thesis by (rule prefix_order.trans)
  qed
qed

lemma Run_rendered:
  "rendered_vars (snd (Run env e w))
     = rendered_vars w @ (case Collect env (aggregator e) (ResultsDir (config e)) of
                            Inl err \<Rightarrow> [] | Inr data \<Rightarrow> [Run_vars data])"
  unfolding Run_def Let_def sendNotifications_def
  by (auto split: sum.splits option.splits prod.splits go_outcome.splits
           simp: rendered_vars_append loop_rendered dest: writeSummary_rendered)

lemma env_upd_SendNotification [simp]:
  "Collect (env\<lparr>SendNotification := f\<rparr>) = Collect env"
  "RenderPrompt (env\<lparr>SendNotification := f\<rparr>) = RenderPrompt env"
  "Analyze (env\<lparr>SendNotification := f\<rparr>) = Analyze env"
  "NewRegistry (env\<lparr>SendNotification := f\<rparr>) = NewRegistry env"
  by simp_all


text \<open>The fake run, evaluated.\<close>

lemma fake_run: "Run fake_env fake_engine [] = (Return (Some fake_result, None), fake_trace)"
  by (simp add: Run_def writeSummary_def sendNotifications_def Let_def
        fake_env_def fake_engine_def fake_config_def fake_result_def fake_trace_def
        fake_llmConfig_def fake_data_def fake_summary_def fake_tool_calls_def
        Run_vars_def Run_llmConfig_def Run_analysisResult_def writeSummary_summary_def
        sendNotifications_reporterResult_def analysisDirName_def summaryFileName_def
        krknAIPromptTemplate_def perm_0o755_def perm_0o644_def)

subsection \<open>Aggregation failure is fatal\<close>

text \<open>
  Claim C1. Whenever the aggregator's \<open>Collect\<close> returns an error, \<open>Run\<close> returns a nil
  result together with an error that wraps the aggregator's error, and the \<open>Collect\<close> call
  is the only thing it has done: \<open>writeSummary\<close> is not reached, so no directory is created
  and no summary file is written.
\<close>

theorem Run_collect_error_fatal:
  assumes "Collect env (aggregator e) (ResultsDir (config e)) = Inl err"
  shows "Run env e w
           = (Return (None, Some (Wrapf ''failed to collect krkn-ai results'' err)),
              w @ [CallCollect (aggregator e) (ResultsDir (config e))])"
  using assms by (simp add: Run_def)

theorem Run_collect_error_fatal_witness:
  "Collect (fake_env\<lparr>Collect := \<lambda>agg dir. Inl (Errorf ''no results'')\<rparr>)
      (aggregator fake_engine) (ResultsDir (config fake_engine)) = Inl (Errorf ''no results'')
   \<and> Run (fake_env\<lparr>Collect := \<lambda>agg dir. Inl (Errorf ''no results'')\<rparr>) fake_engine []
       = (Return (None, Some (Wrapf ''failed to collect krkn-ai results'' (Errorf ''no results''))),
          [CallCollect ''agg'' ''/r''])"
  using Run_collect_error_fatal
          [of "fake_env\<lparr>Collect := \<lambda>agg dir. Inl (Errorf ''no results'')\<rparr>" fake_engine
              "Errorf ''no results''" "[]"]
  by (auto simp: fake_engine_def fake_config_def)

subsection \<open>The result's metadata repeats the aggregated summary\<close>

text \<open>
  Claim C2. Every successful \<open>Run\<close> returns a result whose status is \<open>completed\<close> and
  whose metadata entries \<open>total_scenarios\<close>, \<open>successful_scenarios\<close>, \<open>failed_scenarios\<close>,
  \<open>generations\<close> and \<open>max_fitness_score\<close> are the fields of the summary that the
  aggregator returned in that run.
\<close>

theorem Run_metadata_matches_summary:
  assumes "Run env e w = (Return (res, None), w')"
  shows "\<exists>r data. res = Some r
           \<and> Collect env (aggregator e) (ResultsDir (config e)) = Inr data
           \<and> Status r = ''completed''
           \<and> map_of (Metadata r) ''total_scenarios'' = Some (AInt (TotalScenarioCount (Summary data)))
           \<and> map_of (Metadata r) ''successful_scenarios'' = Some (AInt (SuccessfulScenarioCount (Summary data)))
           \<and> map_of (Metadata r) ''failed_scenarios'' = Some (AInt (FailedScenarioCount (Summary data)))
           \<and> map_of (Metadata r) ''generations'' = Some (AInt (Generations (Summary data)))
           \<and> map_of (Metadata r) ''max_fitness_score'' = Some (AOpaque (MaxFitnessScore (Summary data)))"
proof -
  from assms obtain data userPrompt result where
    c: "Collect env (aggregator e) (ResultsDir (config e)) = Inr data" and
    r: "res = Some (Run_analysisResult data userPrompt result)"
    unfolding Run_ok_iff by blast
  show ?thesis
    using c r by (simp add: Run_analysisResult_def)
qed

theorem Run_metadata_matches_summary_witness:
  "Run fake_env fake_engine [] = (Return (Some fake_result, None), fake_trace)
   \<and> Collect fake_env (aggregator fake_engine) (ResultsDir (config fake_engine)) = Inr fake_data
   \<and> TotalScenarioCount (Summary fake_data) = 50
   \<and> FailedScenarioCount (Summary fake_data) = 5
   \<and> Status fake_result = ''completed''
   \<and> map_of (Metadata fake_result) ''total_scenarios'' = Some (AInt 50)
   \<and> map_of (Metadata fake_result) ''successful_scenarios'' = Some (AInt 45)
   \<and> map_of (Metadata fake_result) ''failed_scenarios'' = Some (AInt 5)
   \<and> map_of (Metadata fake_result) ''generations'' = Some (AInt 10)
   \<and> map_of (Metadata fake_result) ''max_fitness_score'' = Some (AOpaque ''0.97'')"
  using Run_metadata_matches_summary [OF fake_run] fake_run
  by (auto simp: fake_env_def fake_data_def fake_summary_def)

subsection \<open>Counting the tool calls\<close>

text \<open>
  Claim C3. In every successful \<open>Run\<close>, for the list of tool calls that the LLM client
  returned, the metadata entry \<open>tool_calls\<close> is the length of the list and
  \<open>artifacts_examined\<close> is the number of its entries whose name is \<open>read_file\<close>. For the
  list \<open>[read_file, read_file, other_tool]\<close> they are 3 and 2.
\<close>

theorem Run_tool_call_counts:
  assumes "Run env e w = (Return (res, None), w')"
  shows "\<exists>r userPrompt llmConfig toolRegistry result evs.
           res = Some r \<and> w' = w @ evs
         \<and> CallAnalyze (llmClient e) userPrompt llmConfig toolRegistry \<in> set evs
         \<and> Analyze env (llmClient e) userPrompt llmConfig toolRegistry = Inr result
         \<and> map_of (Metadata r) ''tool_calls''
             = Some (AInt (int (length (elems (llm_ToolCalls result)))))
         \<and> map_of (Metadata r) ''artifacts_examined''
             = Some (AInt (int (length (filter (\<lambda>tc. Name tc = ''read_file'')
                                          (elems (llm_ToolCalls result))))))"
proof -
  from assms obtain data userPrompt llmConfig0 result where
    c: "Collect env (aggregator e) (ResultsDir (config e)) = Inr data" and
    p: "RenderPrompt env (promptStore e) krknAIPromptTemplate (Run_vars data)
          = Inr (userPrompt, llmConfig0)" and
    a: "Analyze env (llmClient e) userPrompt (Run_llmConfig (LLMConfig (config e)) llmConfig0)
          (NewRegistry env (LogArtifacts data)) = Inr result" and
    r: "res = Some (Run_analysisResult data userPrompt result)"
    unfolding Run_ok_iff by blast
  from Run_rendered_prefix [OF c p, of w] assms obtain post where
    "w' = w @ ([CallCollect (aggregator e) (ResultsDir (config e)),
                CallNewRegistry (LogArtifacts data),
                CallRenderPrompt (promptStore e) krknAIPromptTemplate (Run_vars data),
                CallAnalyze (llmClient e) userPrompt
                  (Run_llmConfig (LLMConfig (config e)) llmConfig0)
                  (NewRegistry env (LogArtifacts data))] @ post)"
    by (auto simp: prefix_def)
  with a r show ?thesis
    by (intro exI [where x = "Run_analysisResult data userPrompt result"] exI [where x = userPrompt]
              exI [where x = "Run_llmConfig (LLMConfig (config e)) llmConfig0"]
              exI [where x = "NewRegistry env (LogArtifacts data)"] exI [where x = result]
              exI [where x = "[CallCollect (aggregator e) (ResultsDir (config e)),
                CallNewRegistry (LogArtifacts data),
                CallRenderPrompt (promptStore e) krknAIPromptTemplate (Run_vars data),
                CallAnalyze (llmClient e) userPrompt
                  (Run_llmConfig (LLMConfig (config e)) llmConfig0)
                  (NewRegistry env (LogArtifacts data))] @ post"])
       (simp add: Run_analysisResult_def count_read_file_acc)
qed

theorem Run_tool_call_counts_witness:
  "Run fake_env fake_engine [] = (Return (Some fake_result, None), fake_trace)
   \<and> Analyze fake_env ''client'' ''prompt'' fake_llmConfig ''tools''
       = Inr \<lparr>llm_Content = ''report'', llm_ToolCalls = Some fake_tool_calls\<rparr>
   \<and> map Name fake_tool_calls = [''read_file'', ''read_file'', ''other_tool'']
   \<and> map_of (Metadata fake_result) ''artifacts_examined'' = Some (AInt 2)
   \<and> map_of (Metadata fake_result) ''tool_calls'' = Some (AInt 3)"
  using Run_tool_call_counts [OF fake_run] fake_run
  by (simp add: fake_env_def fake_tool_calls_def fake_result_def)

subsection \<open>Notifications\<close>



subsection \<open>The persisted summary\<close>

text \<open>
  Claim C5. A successful \<open>Run\<close> has created the directory \<open>llm-analysis\<close> under the
  results directory (\<open>MkdirAll\<close>, which creates it if it is absent) and then written the
  encoded summary document to \<open>summary.yaml\<close> in that directory. The document has a
  timestamp, the analysis type \<open>krknai\<close>, a run summary with the total, successful and
  failed counts, the generations, the maximal and average fitness and the scenario
  types, the top and the failed scenarios as the aggregator returned them, and the
  result's status, prompt, content (under \<open>response\<close>), metadata and error; both
  \<open>MkdirAll\<close> and \<open>WriteFile\<close> have returned no error. When the directory cannot be
  created or the file cannot be written, \<open>Run\<close> returns an error; so it does whenever
  the \<open>MkdirAll\<close> or the \<open>WriteFile\<close> call that the run has made returned an error.
\<close>

theorem Run_persists_summary:
  "(Run env e w = (Return (res, None), w') \<longrightarrow>
     (\<exists>r data yamlData summary pre post.
         res = Some r
       \<and> Collect env (aggregator e) (ResultsDir (config e)) = Inr data
       \<and> w' = w @ pre @
              [CallMkdirAll (Join env (ResultsDir (config e)) ''llm-analysis'') perm_0o755,
               CallNow,
               CallMarshal (AMap summary),
               CallWriteFile (Join env (Join env (ResultsDir (config e)) ''llm-analysis'')
                                   ''summary.yaml'') yamlData perm_0o644] @ post
       \<and> MkdirAll env (Join env (ResultsDir (config e)) ''llm-analysis'') perm_0o755 = None
       \<and> Marshal env (AMap summary) = Inr yamlData
       \<and> WriteFile env (Join env (Join env (ResultsDir (config e)) ''llm-analysis'')
                                ''summary.yaml'') yamlData perm_0o644 = None
       \<and> fst ` set summary =
            {''timestamp'', ''analysis_type'', ''run_summary'', ''top_scenarios'',
             ''failed_scenarios'', ''status'', ''prompt'', ''response'', ''metadata'', ''error''}
       \<and> map_of summary ''timestamp'' = Some (AString (Now_RFC3339 env))
       \<and> map_of summary ''analysis_type'' = Some (AString ''krknai'')
       \<and> map_of summary ''run_summary'' = Some (AMap
           [(''total_scenarios'', AInt (TotalScenarioCount (Summary data))),
            (''successful_scenarios'', AInt (SuccessfulScenarioCount (Summary data))),
            (''failed_scenarios'', AInt (FailedScenarioCount (Summary data))),
            (''generations'', AInt (Generations (Summary data))),
            (''max_fitness_score'', AOpaque (MaxFitnessScore (Summary data))),
            (''avg_fitness_score'', AOpaque (AvgFitnessScore (Summary data))),
            (''scenario_types'', AOpaque (ScenarioTypes (Summary data)))])
       \<and> map_of summary ''top_scenarios'' = Some (AOpaque (TopScenarios data))
       \<and> map_of summary ''failed_scenarios'' = Some (AOpaque (FailedScenarios data))
       \<and> map_of summary ''status'' = Some (AString (Status r))
       \<and> map_of summary ''prompt'' = Some (AString (Prompt r))
       \<and> map_of summary ''response'' = Some (AString (Content r))
       \<and> map_of summary ''metadata'' = Some (AMap (Metadata r))
       \<and> map_of summary ''error'' = Some (AString (Error r))))
   \<and> (MkdirAll env (Join env (ResultsDir (config e)) ''llm-analysis'') perm_0o755 \<noteq> None
        \<or> (\<forall>y. WriteFile env (Join env (Join env (ResultsDir (config e)) ''llm-analysis'')
                                    ''summary.yaml'') y perm_0o644 \<noteq> None)
       \<longrightarrow> (\<exists>err. fst (Run env e w) = Return (None, Some err)))
   \<and> (snd (Run env e w) = w @ evs
        \<and> ((CallMkdirAll dir perm \<in> set evs \<and> MkdirAll env dir perm \<noteq> None)
             \<or> (CallWriteFile path bytes perm' \<in> set evs \<and> WriteFile env path bytes perm' \<noteq> None))
       \<longrightarrow> (\<exists>err. fst (Run env e w) = Return (None, Some err)))"
proof (intro conjI impI)
  assume run: "Run env e w = (Return (res, None), w')"
  then obtain data userPrompt llmConfig0 result w4 where
    c: "Collect env (aggregator e) (ResultsDir (config e)) = Inr data" and
    ws: "writeSummary env e (Run_analysisResult data userPrompt result) data
          (w @ [CallCollect (aggregator e) (ResultsDir (config e)),
                CallNewRegistry (LogArtifacts data),
                CallRenderPrompt (promptStore e) krknAIPromptTemplate (Run_vars data),
                CallAnalyze (llmClient e) userPrompt
                  (Run_llmConfig (LLMConfig (config e)) llmConfig0)
                  (NewRegistry env (LogArtifacts data))]) = (None, w4)" and
    r: "res = Some (Run_analysisResult data userPrompt result)" and
    w': "w' = (case NotificationConfig (config e) of
               None \<Rightarrow> w4
             | Some nc \<Rightarrow>
                 if Enabled nc
                 then sendNotifications_loop env e
                        (sendNotifications_reporterResult (Run_analysisResult data userPrompt result))
                        (elems (Reporters nc)) w4
                 else w4)"
    unfolding Run_ok_iff by blast
  let ?r = "Run_analysisResult data userPrompt result"
  let ?pre = "[CallCollect (aggregator e) (ResultsDir (config e)),
                CallNewRegistry (LogArtifacts data),
                CallRenderPrompt (promptStore e) krknAIPromptTemplate (Run_vars data),
                CallAnalyze (llmClient e) userPrompt
                  (Run_llmConfig (LLMConfig (config e)) llmConfig0)
                  (NewRegistry env (LogArtifacts data))]"
  from ws obtain y where
    mk: "MkdirAll env (Join env (ResultsDir (config e)) ''llm-analysis'') perm_0o755 = None" and
    wf: "WriteFile env (Join env (Join env (ResultsDir (config e)) ''llm-analysis'')
                             ''summary.yaml'') y perm_0o644 = None" and
    m: "Marshal env (writeSummary_summary env ?r data) = Inr y" and
    w4: "w4 = w @ ?pre @
              [CallMkdirAll (Join env (ResultsDir (config e)) ''llm-analysis'') perm_0o755,
               CallNow,
               CallMarshal (writeSummary_summary env ?r data),
               CallWriteFile (Join env (Join env (ResultsDir (config e)) ''llm-analysis'')
                                   ''summary.yaml'') y perm_0o644]"
    unfolding writeSummary_None analysisDirName_def summaryFileName_def by auto
  from w' obtain post where post: "w' = w4 @ post"
    using notify_stage_prefix [where ?w4.0 = w4 and nc_ptr = "NotificationConfig (config e)"
            and env = env and e = e and rr = "sendNotifications_reporterResult ?r"]
    by (auto simp: prefix_def)
  from writeSummary_summary_entries [of env ?r data] obtain summary where
    sp: "writeSummary_summary env ?r data = AMap summary
     \<and> fst ` set summary =
          {''timestamp'', ''analysis_type'', ''run_summary'', ''top_scenarios'',
           ''failed_scenarios'', ''status'', ''prompt'', ''response'', ''metadata'', ''error''}
     \<and> map_of summary ''timestamp'' = Some (AString (Now_RFC3339 env))
     \<and> map_of summary ''analysis_type'' = Some (AString ''krknai'')
     \<and> map_of summary ''run_summary'' = Some (AMap
         [(''total_scenarios'', AInt (TotalScenarioCount (Summary data))),
          (''successful_scenarios'', AInt (SuccessfulScenarioCount (Summary data))),
          (''failed_scenarios'', AInt (FailedScenarioCount (Summary data))),
          (''generations'', AInt (Generations (Summary data))),
          (''max_fitness_score'', AOpaque (MaxFitnessScore (Summary data))),
          (''avg_fitness_score'', AOpaque (AvgFitnessScore (Summary data))),
          (''scenario_types'', AOpaque (ScenarioTypes (Summary data)))])
     \<and> map_of summary ''top_scenarios'' = Some (AOpaque (TopScenarios data))
     \<and> map_of summary ''failed_scenarios'' = Some (AOpaque (FailedScenarios data))
     \<and> map_of summary ''status'' = Some (AString (Status ?r))
     \<and> map_of summary ''prompt'' = Some (AString (Prompt ?r))
     \<and> map_of summary ''response'' = Some (AString (Content ?r))
     \<and> map_of summary ''metadata'' = Some (AMap (Metadata ?r))
     \<and> map_of summary ''error'' = Some (AString (Error ?r))"
    ..
  note s = sp [THEN conjunct1] and props = sp [THEN conjunct2]
  have tr: "w' = w @ ?pre @
              [CallMkdirAll (Join env (ResultsDir (config e)) ''llm-analysis'') perm_0o755,
               CallNow,
               CallMarshal (AMap summary),
               CallWriteFile (Join env (Join env (ResultsDir (config e)) ''llm-analysis'')
                                   ''summary.yaml'') y perm_0o644] @ post"
    using post w4 s by simp
  have m': "Marshal env (AMap summary) = Inr y"
    using m s by simp
  show "\<exists>r data yamlData summary pre post.
         res = Some r
       \<and> Collect env (aggregator e) (ResultsDir (config e)) = Inr data
       \<and> w' = w @ pre @
              [CallMkdirAll (Join env (ResultsDir (config e)) ''llm-analysis'') perm_0o755,
               CallNow,
               CallMarshal (AMap summary),
               CallWriteFile (Join env (Join env (ResultsDir (config e)) ''llm-analysis'')
                                   ''summary.yaml'') yamlData perm_0o644] @ post
       \<and> MkdirAll env (Join env (ResultsDir (config e)) ''llm-analysis'') perm_0o755 = None
       \<and> Marshal env (AMap summary) = Inr yamlData
       \<and> WriteFile env (Join env (Join env (ResultsDir (config e)) ''llm-analysis'')
                                ''summary.yaml'') yamlData perm_0o644 = None
       \<and> fst ` set summary =
            {''timestamp'', ''analysis_type'', ''run_summary'', ''top_scenarios'',
             ''failed_scenarios'', ''status'', ''prompt'', ''response'', ''metadata'', ''error''}
       \<and> map_of summary ''timestamp'' = Some (AString (Now_RFC3339 env))
       \<and> map_of summary ''analysis_type'' = Some (AString ''krknai'')
       \<and> map_of summary ''run_summary'' = Some (AMap
           [(''total_scenarios'', AInt (TotalScenarioCount (Summary data))),
            (''successful_scenarios'', AInt (SuccessfulScenarioCount (Summary data))),
            (''failed_scenarios'', AInt (FailedScenarioCount (Summary data))),
            (''generations'', AInt (Generations (Summary data))),
            (''max_fitness_score'', AOpaque (MaxFitnessScore (Summary data))),
            (''avg_fitness_score'', AOpaque (AvgFitnessScore (Summary data))),
            (''scenario_types'', AOpaque (ScenarioTypes (Summary data)))])
       \<and> map_of summary ''top_scenarios'' = Some (AOpaque (TopScenarios data))
       \<and> map_of summary ''failed_scenarios'' = Some (AOpaque (FailedScenarios data))
       \<and> map_of summary ''status'' = Some (AString (Status r))
       \<and> map_of summary ''prompt'' = Some (AString (Prompt r))
       \<and> map_of summary ''response'' = Some (AString (Content r))
       \<and> map_of summary ''metadata'' = Some (AMap (Metadata r))
       \<and> map_of summary ''error'' = Some (AString (Error r))"
    using r c tr mk m' wf props
    by (intro exI [where x = ?r] exI [where x = data] exI [where x = y]
              exI [where x = summary] exI [where x = ?pre] exI [where x = post]) simp
next
  assume fail: "MkdirAll env (Join env (ResultsDir (config e)) ''llm-analysis'') perm_0o755 \<noteq> None
        \<or> (\<forall>y. WriteFile env (Join env (Join env (ResultsDir (config e)) ''llm-analysis'')
                                    ''summary.yaml'') y perm_0o644 \<noteq> None)"
  show "\<exists>err. fst (Run env e w) = Return (None, Some err)"
  proof (rule ccontr)
    assume "\<not> ?thesis"
    with Run_outcome [of env e w] obtain r where "fst (Run env e w) = Return (Some r, None)"
      by blast
    then have "Run env e w = (Return (Some r, None), snd (Run env e w))"
      by (simp add: prod_eq_iff)
    then obtain d ar w3 w4 where "writeSummary env e ar d w3 = (None, w4)"
      unfolding Run_ok_iff by blast
    with fail show False
      unfolding writeSummary_None analysisDirName_def summaryFileName_def
      by (auto simp del: not_None_eq)
  qed
next
  assume fail: "snd (Run env e w) = w @ evs
        \<and> ((CallMkdirAll dir perm \<in> set evs \<and> MkdirAll env dir perm \<noteq> None)
             \<or> (CallWriteFile path bytes perm' \<in> set evs \<and> WriteFile env path bytes perm' \<noteq> None))"
  show "\<exists>err. fst (Run env e w) = Return (None, Some err)"
  proof (rule ccontr)
    assume "\<not> ?thesis"
    with Run_outcome [of env e w] obtain r where "fst (Run env e w) = Return (Some r, None)"
      by blast
    with fail have run: "Run env e w = (Return (Some r, None), w @ evs)"
      by (simp add: prod_eq_iff)
    then obtain data userPrompt llmConfig0 result w4 where
      ws: "writeSummary env e (Run_analysisResult data userPrompt result) data
          (w @ [CallCollect (aggregator e) (ResultsDir (config e)),
                CallNewRegistry (LogArtifacts data),
                CallRenderPrompt (promptStore e) krknAIPromptTemplate (Run_vars data),
                CallAnalyze (llmClient e) userPrompt
                  (Run_llmConfig (LLMConfig (config e)) llmConfig0)
                  (NewRegistry env (LogArtifacts data))]) = (None, w4)" and
      w': "w @ evs = (case NotificationConfig (config e) of
               None \<Rightarrow> w4
             | Some nc \<Rightarrow>
                 if Enabled nc
                 then sendNotifications_loop env e
                        (sendNotifications_reporterResult (Run_analysisResult data userPrompt result))
                        (elems (Reporters nc)) w4
                 else w4)"
      unfolding Run_ok_iff by blast
    let ?r = "Run_analysisResult data userPrompt result"
    let ?d = "Join env (ResultsDir (config e)) analysisDirName"
    let ?f = "Join env ?d summaryFileName"
    from ws obtain y where
      mk: "MkdirAll env ?d perm_0o755 = None" and
      wf: "WriteFile env ?f y perm_0o644 = None" and
      w4: "w4 = w @ [CallCollect (aggregator e) (ResultsDir (config e)),
                CallNewRegistry (LogArtifacts data),
                CallRenderPrompt (promptStore e) krknAIPromptTemplate (Run_vars data),
                CallAnalyze (llmClient e) userPrompt
                  (Run_llmConfig (LLMConfig (config e)) llmConfig0)
                  (NewRegistry env (LogArtifacts data)),
                CallMkdirAll ?d perm_0o755, CallNow,
                CallMarshal (writeSummary_summary env ?r data),
                CallWriteFile ?f y perm_0o644]"
      unfolding writeSummary_None by auto
    obtain post where
      post: "w @ evs = w4 @ post" and
      quiet: "\<forall>ev \<in> set post.
                (\<exists>c. ev = CallSendNotification (reporterRegistry e)
                               (sendNotifications_reporterResult ?r) c)
              \<or> (\<exists>line. ev = WriteStderr line)"
    proof (cases "case NotificationConfig (config e) of None \<Rightarrow> False | Some nc \<Rightarrow> Enabled nc")
      case False
      with w' have "w @ evs = w4 @ []"
        by (auto split: option.splits)
      then show ?thesis by (rule that) simp
    next
      case True
      then obtain nc where nc: "NotificationConfig (config e) = Some nc" "Enabled nc"
        by (auto split: option.splits)
      from loop_events [of env e "sendNotifications_reporterResult ?r" "elems (Reporters nc)" w4]
      obtain post where
        "sendNotifications_loop env e (sendNotifications_reporterResult ?r)
           (elems (Reporters nc)) w4 = w4 @ post"
        "\<forall>ev \<in> set post.
                (\<exists>c. ev = CallSendNotification (reporterRegistry e)
                               (sendNotifications_reporterResult ?r) c)
              \<or> (\<exists>line. ev = WriteStderr line)"
        by blast
      with w' nc show ?thesis by (intro that [of post]) simp_all
    qed
    from post w4 have evs: "evs = [CallCollect (aggregator e) (ResultsDir (config e)),
                CallNewRegistry (LogArtifacts data),
                CallRenderPrompt (promptStore e) krknAIPromptTemplate (Run_vars data),
                CallAnalyze (llmClient e) userPrompt
                  (Run_llmConfig (LLMConfig (config e)) llmConfig0)
                  (NewRegistry env (LogArtifacts data)),
                CallMkdirAll ?d perm_0o755, CallNow,
                CallMarshal (writeSummary_summary env ?r data),
                CallWriteFile ?f y perm_0o644] @ post"
      by simp
    from fail have "(CallMkdirAll dir perm \<in> set evs \<and> MkdirAll env dir perm \<noteq> None)
             \<or> (CallWriteFile path bytes perm' \<in> set evs \<and> WriteFile env path bytes perm' \<noteq> None)"
      by simp
    then show False
    proof
      assume mfail: "CallMkdirAll dir perm \<in> set evs \<and> MkdirAll env dir perm \<noteq> None"
      with quiet have "dir = ?d \<and> perm = perm_0o755"
        unfolding evs by auto
      with mfail mk show False by simp
    next
      assume wfail: "CallWriteFile path bytes perm' \<in> set evs \<and> WriteFile env path bytes perm' \<noteq> None"
      with quiet have "path = ?f \<and> bytes = y \<and> perm' = perm_0o644"
        unfolding evs by auto
      with wfail wf show False by simp
    qed
  qed
qed

theorem Run_persists_summary_witness:
  "Run fake_env fake_engine [] = (Return (Some fake_result, None), fake_trace)
   \<and> [CallMkdirAll ''/r/llm-analysis'' 493, CallNow,
       CallMarshal (writeSummary_summary fake_env fake_result fake_data),
       CallWriteFile ''/r/llm-analysis/summary.yaml'' ''yaml'' 420]
      = take 4 (drop 4 fake_trace)
   \<and> MkdirAll fake_env ''/r/llm-analysis'' 493 = None
   \<and> WriteFile fake_env ''/r/llm-analysis/summary.yaml'' ''yaml'' 420 = None
   \<and> MkdirAll (fake_env\<lparr>MkdirAll := \<lambda>path perm. Some (Errorf ''read-only'')\<rparr>)
        (Join (fake_env\<lparr>MkdirAll := \<lambda>path perm. Some (Errorf ''read-only'')\<rparr>)
           (ResultsDir (config fake_engine)) ''llm-analysis'') perm_0o755 \<noteq> None
   \<and> fst (Run (fake_env\<lparr>MkdirAll := \<lambda>path perm. Some (Errorf ''read-only'')\<rparr>) fake_engine [])
       = Return (None, Some (Wrapf ''failed to write analysis summary''
                              (Wrapf ''failed to create analysis directory'' (Errorf ''read-only''))))
   \<and> snd (Run fake_disk_full_env fake_engine []) = [] @ take 8 fake_trace
   \<and> CallWriteFile ''/r/llm-analysis/summary.yaml'' ''yaml'' 420 \<in> set (take 8 fake_trace)
   \<and> WriteFile fake_disk_full_env ''/r/llm-analysis/summary.yaml'' ''yaml'' 420 \<noteq> None
   \<and> WriteFile fake_disk_full_env ''/r/llm-analysis/summary.yaml'' [] 420 = None
   \<and> fst (Run fake_disk_full_env fake_engine [])
       = Return (None, Some (Wrapf ''failed to write analysis summary''
                              (Wrapf ''failed to write summary file'' (Errorf ''disk full''))))"
  using Run_persists_summary [of fake_env fake_engine "[]" "Some fake_result" fake_trace]
        Run_persists_summary
          [of "fake_env\<lparr>MkdirAll := \<lambda>path perm. Some (Errorf ''read-only'')\<rparr>" fake_engine "[]"]
        Run_persists_summary
          [where env = fake_disk_full_env and e = fake_engine and w = "[]"
             and evs = "take 8 fake_trace" and path = "''/r/llm-analysis/summary.yaml''"
             and bytes = "''yaml''" and perm' = 420]
        fake_run
  by (simp add: Run_def writeSummary_def sendNotifications_def Let_def fake_disk_full_env_def
        fake_env_def fake_engine_def fake_config_def fake_result_def fake_trace_def
        fake_llmConfig_def fake_data_def fake_summary_def fake_tool_calls_def
        Run_vars_def Run_llmConfig_def Run_analysisResult_def writeSummary_summary_def
        sendNotifications_reporterResult_def analysisDirName_def summaryFileName_def
        krknAIPromptTemplate_def perm_0o755_def perm_0o644_def)

subsection \<open>Construction\<close>

text \<open>
  Claim C6, as stated, also promises an error return for a nil configuration. \<open>New\<close>
  has no nil check: its first statement reads \<open>config.ResultsDir\<close>, so a nil
  configuration panics.
\<close>

theorem New_nil_config_panics: "New fake_env None [] = (Panic, [])"
  by (simp add: New_def)

text \<open>
  Claim C6, amended. For a non-nil configuration whose results directory or API key is
  empty, \<open>New\<close> returns a nil engine and an error before it has called any collaborator;
  and whenever \<open>New\<close> returns an error the engine it returns is nil.
\<close>

theorem New_precondition_failures:
  "(ResultsDir conf = [] \<or> APIKey conf = [] \<longrightarrow>
      (\<exists>err. New env (Some conf) w = (Return (None, Some err), w)))
   \<and> (New env (Some conf) w = (Return (eng, Some err'), w') \<longrightarrow> eng = None)"
  unfolding New_def Let_def
  by (auto split: sum.splits prod.splits if_splits)

theorem New_precondition_failures_witness:
  "ResultsDir (fake_config\<lparr>ResultsDir := []\<rparr>) = []
   \<and> New fake_env (Some (fake_config\<lparr>ResultsDir := []\<rparr>)) []
       = (Return (None, Some (Errorf ''results directory is required'')), [])
   \<and> APIKey (fake_config\<lparr>APIKey := []\<rparr>) = []
   \<and> New fake_env (Some (fake_config\<lparr>APIKey := []\<rparr>)) []
       = (Return (None, Some (Errorf ''GEMINI_API_KEY is required for krkn-ai analysis'')), [])
   \<and> New (fake_env\<lparr>NewGeminiClient := \<lambda>key. Inl (Errorf ''bad key'')\<rparr>) (Some fake_config) []
       = (Return (None, Some (Wrapf ''failed to initialize LLM client'' (Errorf ''bad key''))),
          [CallNewKrknAIAggregator, CallWithTopScenariosCount 5, CallSub ''prompts'',
           CallNewPromptStore ''fs'', CallNewGeminiClient ''key''])"
  using New_precondition_failures [of "fake_config\<lparr>ResultsDir := []\<rparr>" fake_env "[]"]
        New_precondition_failures [of "fake_config\<lparr>APIKey := []\<rparr>" fake_env "[]"]
        New_precondition_failures
          [of fake_config "fake_env\<lparr>NewGeminiClient := \<lambda>key. Inl (Errorf ''bad key'')\<rparr>" "[]"
              None "Wrapf ''failed to initialize LLM client'' (Errorf ''bad key'')"]
  by (simp add: New_def Let_def fake_env_def fake_config_def)

subsection \<open>Overrides of the model parameters\<close>

text \<open>
  Claim C7. The configuration that \<open>Run\<close> passes to the LLM client is the one the template
  supplied, except that the temperature, the maximum of tokens and top-p are each
  replaced by the caller's value when the caller's \<open>LLMConfig\<close> is non-nil and that value
  is non-nil. Each of the three is decided on its own, and nothing else is changed.
\<close>

theorem Run_llm_overrides:
  assumes "Collect env (aggregator e) (ResultsDir (config e)) = Inr data"
      and "RenderPrompt env (promptStore e) krknAIPromptTemplate (Run_vars data)
             = Inr (userPrompt, llmConfig0)"
  shows "\<exists>llmConfig evs.
           snd (Run env e w) = w @ evs
         \<and> CallAnalyze (llmClient e) userPrompt llmConfig (NewRegistry env (LogArtifacts data)) \<in> set evs
         \<and> Temperature llmConfig =
             (case Option.bind (LLMConfig (config e)) Temperature of
                Some t \<Rightarrow> Some t | None \<Rightarrow> Temperature llmConfig0)
         \<and> MaxTokens llmConfig =
             (case Option.bind (LLMConfig (config e)) MaxTokens of
                Some m \<Rightarrow> Some m | None \<Rightarrow> MaxTokens llmConfig0)
         \<and> TopP llmConfig =
             (case Option.bind (LLMConfig (config e)) TopP of
                Some p \<Rightarrow> Some p | None \<Rightarrow> TopP llmConfig0)
         \<and> OtherFields llmConfig = OtherFields llmConfig0"
proof -
  let ?cfg = "Run_llmConfig (LLMConfig (config e)) llmConfig0"
  let ?evs = "[CallCollect (aggregator e) (ResultsDir (config e)),
                CallNewRegistry (LogArtifacts data),
                CallRenderPrompt (promptStore e) krknAIPromptTemplate (Run_vars data),
                CallAnalyze (llmClient e) userPrompt ?cfg (NewRegistry env (LogArtifacts data))]"
  from Run_rendered_prefix [OF assms, of w] obtain post where
    tr: "snd (Run env e w) = w @ (?evs @ post)"
    by (auto simp: prefix_def)
  have fields: "Temperature ?cfg =
             (case Option.bind (LLMConfig (config e)) Temperature of
                Some t \<Rightarrow> Some t | None \<Rightarrow> Temperature llmConfig0)"
     "MaxTokens ?cfg =
             (case Option.bind (LLMConfig (config e)) MaxTokens of
                Some m \<Rightarrow> Some m | None \<Rightarrow> MaxTokens llmConfig0)"
     "TopP ?cfg =
             (case Option.bind (LLMConfig (config e)) TopP of
                Some p \<Rightarrow> Some p | None \<Rightarrow> TopP llmConfig0)"
     "OtherFields ?cfg = OtherFields llmConfig0"
    by (simp_all add: Run_llmConfig_def Let_def split: option.splits)
  show ?thesis
    using tr fields
    by (intro exI [where x = ?cfg] exI [where x = "?evs @ post"]) simp
qed

theorem Run_llm_overrides_witness:
  "Collect fake_env (aggregator fake_engine) (ResultsDir (config fake_engine)) = Inr fake_data
   \<and> RenderPrompt fake_env (promptStore fake_engine) krknAIPromptTemplate (Run_vars fake_data)
       = Inr (''prompt'', \<lparr>Temperature = Some ''0.2'', MaxTokens = Some ''4096'', TopP = None,
                            OtherFields = ''model''\<rparr>)
   \<and> LLMConfig (config fake_engine)
       = Some \<lparr>Temperature = None, MaxTokens = Some ''1024'', TopP = Some ''0.9'',
               OtherFields = ''ignored''\<rparr>
   \<and> CallAnalyze ''client'' ''prompt''
        \<lparr>Temperature = Some ''0.2'', MaxTokens = Some ''1024'', TopP = Some ''0.9'',
         OtherFields = ''model''\<rparr> ''tools'' \<in> set (snd (Run fake_env fake_engine []))"
proof -
  have c: "Collect fake_env (aggregator fake_engine) (ResultsDir (config fake_engine))
             = Inr fake_data"
    by (simp add: fake_env_def)
  have p: "RenderPrompt fake_env (promptStore fake_engine) krknAIPromptTemplate (Run_vars fake_data)
       = Inr (''prompt'', \<lparr>Temperature = Some ''0.2'', MaxTokens = Some ''4096'', TopP = None,
                            OtherFields = ''model''\<rparr>)"
    by (simp add: fake_env_def)
  show ?thesis
    using Run_llm_overrides [OF c p, of "[]"] c p fake_run
    by (simp add: fake_trace_def fake_llmConfig_def fake_engine_def fake_config_def)
qed

subsection \<open>The template variables\<close>

text \<open>
  Claim C8, as stated, counts seven fields in the mapping passed to \<open>RenderPrompt\<close>.
  The mapping has six entries, the six that the claim goes on to name.
\<close>

theorem Run_vars_six_not_seven:
  "map length (rendered_vars (snd (Run fake_env fake_engine []))) = [6]
   \<and> map length (rendered_vars (snd (Run fake_env fake_engine []))) \<noteq> [7]"
  by (simp add: fake_run fake_trace_def Run_vars_def)

text \<open>
  Claim C8, amended. When aggregation succeeds, \<open>Run\<close> calls \<open>RenderPrompt\<close> once, with
  a mapping of exactly six entries: the summary, the top scenarios, the failed
  scenarios, the health-check report, the log artifacts and the configuration summary
  of the collected data. Nothing else reaches the template.
\<close>

theorem Run_template_vars:
  assumes "Collect env (aggregator e) (ResultsDir (config e)) = Inr data"
  shows "rendered_vars (snd (Run env e w))
     = rendered_vars w @ ([(''Summary'', ASummary (Summary data)),
                          (''TopScenarios'', AOpaque (TopScenarios data)),
                          (''FailedScenarios'', AOpaque (FailedScenarios data)),
                          (''HealthCheckReport'', AOpaque (HealthCheckReport data)),
                          (''LogArtifacts'', AOpaque (LogArtifacts data)),
                          (''ConfigSummary'', AOpaque (ConfigSummary data))] # [])"
  using assms by (simp add: Run_rendered Run_vars_def)

theorem Run_template_vars_witness:
  "Collect fake_env (aggregator fake_engine) (ResultsDir (config fake_engine)) = Inr fake_data
   \<and> rendered_vars (snd (Run fake_env fake_engine []))
       = [(''Summary'', ASummary fake_summary),
          (''TopScenarios'', AOpaque ''top''),
          (''FailedScenarios'', AOpaque ''failed''),
          (''HealthCheckReport'', AOpaque ''health''),
          (''LogArtifacts'', AOpaque ''logs''),
          (''ConfigSummary'', AOpaque ''cfg'')] # []"
proof -
  have c: "Collect fake_env (aggregator fake_engine) (ResultsDir (config fake_engine))
             = Inr fake_data"
    by (simp add: fake_env_def)
  show ?thesis
    using Run_template_vars [OF c, of "[]"] c
    by (simp add: fake_data_def)
qed

subsection \<open>The tool-call record of the result\<close>

text \<open>
  Claim C9. The result of every successful \<open>Run\<close> has a nil \<open>ToolCalls\<close> field: the list
  that the LLM client returned is counted for the metadata and not attached to the
  result.
\<close>

theorem Run_result_ToolCalls_nil:
  assumes "Run env e w = (Return (res, None), w')"
  shows "\<exists>r. res = Some r \<and> ToolCalls r = None"
proof -
  from assms obtain data userPrompt result where
    "res = Some (Run_analysisResult data userPrompt result)"
    unfolding Run_ok_iff by blast
  then show ?thesis by (simp add: Run_analysisResult_def)
qed

theorem Run_result_ToolCalls_nil_witness:
  "Run fake_env fake_engine [] = (Return (Some fake_result, None), fake_trace)
   \<and> Analyze fake_env ''client'' ''prompt'' fake_llmConfig ''tools''
       = Inr \<lparr>llm_Content = ''report'', llm_ToolCalls = Some fake_tool_calls\<rparr>
   \<and> length fake_tool_calls = 3
   \<and> ToolCalls fake_result = None"
  using Run_result_ToolCalls_nil [OF fake_run] fake_run
  by (simp add: fake_env_def fake_tool_calls_def)

subsection \<open>The keys of the metadata\<close>

text \<open>
  Claim C10. The metadata of the result of every successful \<open>Run\<close> has exactly the eight
  keys \<open>analysis_type\<close>, \<open>total_scenarios\<close>, \<open>successful_scenarios\<close>, \<open>failed_scenarios\<close>,
  \<open>generations\<close>, \<open>max_fitness_score\<close>, \<open>artifacts_examined\<close> and \<open>tool_calls\<close>. The average
  fitness score is not among them; it is in the \<open>run_summary\<close> block of the persisted
  document.
\<close>

theorem Run_metadata_keys:
  assumes "Run env e w = (Return (res, None), w')"
  shows "\<exists>r data summary run_summary evs.
           res = Some r
         \<and> Collect env (aggregator e) (ResultsDir (config e)) = Inr data
         \<and> fst ` set (Metadata r) =
              {''analysis_type'', ''total_scenarios'', ''successful_scenarios'',
               ''failed_scenarios'', ''generations'', ''max_fitness_score'',
               ''artifacts_examined'', ''tool_calls''}
         \<and> distinct (map fst (Metadata r))
         \<and> map_of (Metadata r) ''avg_fitness_score'' = None
         \<and> w' = w @ evs
         \<and> CallMarshal (AMap summary) \<in> set evs
         \<and> map_of summary ''run_summary'' = Some (AMap run_summary)
         \<and> map_of run_summary ''avg_fitness_score''
              = Some (AOpaque (AvgFitnessScore (Summary data)))"
proof -
  from assms obtain data userPrompt llmConfig0 result w4 where
    c: "Collect env (aggregator e) (ResultsDir (config e)) = Inr data" and
    ws: "writeSummary env e (Run_analysisResult data userPrompt result) data
          (w @ [CallCollect (aggregator e) (ResultsDir (config e)),
                CallNewRegistry (LogArtifacts data),
                CallRenderPrompt (promptStore e) krknAIPromptTemplate (Run_vars data),
                CallAnalyze (llmClient e) userPrompt
                  (Run_llmConfig (LLMConfig (config e)) llmConfig0)
                  (NewRegistry env (LogArtifacts data))]) = (None, w4)" and
    r: "res = Some (Run_analysisResult data userPrompt result)" and
    w': "w' = (case NotificationConfig (config e) of
               None \<Rightarrow> w4
             | Some nc \<Rightarrow>
                 if Enabled nc
                 then sendNotifications_loop env e
                        (sendNotifications_reporterResult (Run_analysisResult data userPrompt result))
                        (elems (Reporters nc)) w4
                 else w4)"
    unfolding Run_ok_iff by blast
  let ?r = "Run_analysisResult data userPrompt result"
  from ws obtain mid where w4: "w4 = w @ mid" and
    m: "CallMarshal (writeSummary_summary env ?r data) \<in> set mid"
    unfolding writeSummary_None by auto
  from w' obtain post where "w' = w4 @ post"
    using notify_stage_prefix [where ?w4.0 = w4 and nc_ptr = "NotificationConfig (config e)"
            and env = env and e = e and rr = "sendNotifications_reporterResult ?r"]
    by (auto simp: prefix_def)
  with w4 m have tr: "w' = w @ (mid @ post)"
    "CallMarshal (writeSummary_summary env ?r data) \<in> set (mid @ post)"
    by simp_all
  obtain summary where s: "writeSummary_summary env ?r data = AMap summary"
    "map_of summary ''run_summary'' = Some (AMap
         [(''total_scenarios'', AInt (TotalScenarioCount (Summary data))),
          (''successful_scenarios'', AInt (SuccessfulScenarioCount (Summary data))),
          (''failed_scenarios'', AInt (FailedScenarioCount (Summary data))),
          (''generations'', AInt (Generations (Summary data))),
          (''max_fitness_score'', AOpaque (MaxFitnessScore (Summary data))),
          (''avg_fitness_score'', AOpaque (AvgFitnessScore (Summary data))),
          (''scenario_types'', AOpaque (ScenarioTypes (Summary data)))])"
    by (simp add: writeSummary_summary_def)
  have keys: "fst ` set (Metadata ?r) =
              {''analysis_type'', ''total_scenarios'', ''successful_scenarios'',
               ''failed_scenarios'', ''generations'', ''max_fitness_score'',
               ''artifacts_examined'', ''tool_calls''}"
    "distinct (map fst (Metadata ?r))"
    "map_of (Metadata ?r) ''avg_fitness_score'' = None"
    by (simp_all add: Run_analysisResult_def)
  show ?thesis
    using c r tr s keys
    by (intro exI [where x = ?r] exI [where x = data] exI [where x = summary]
              exI [where x = "[(''total_scenarios'', AInt (TotalScenarioCount (Summary data))),
          (''successful_scenarios'', AInt (SuccessfulScenarioCount (Summary data))),
          (''failed_scenarios'', AInt (FailedScenarioCount (Summary data))),
          (''generations'', AInt (Generations (Summary data))),
          (''max_fitness_score'', AOpaque (MaxFitnessScore (Summary data))),
          (''avg_fitness_score'', AOpaque (AvgFitnessScore (Summary data))),
          (''scenario_types'', AOpaque (ScenarioTypes (Summary data)))]"]
              exI [where x = "mid @ post"]) simp
qed

theorem Run_metadata_keys_witness:
  "Run fake_env fake_engine [] = (Return (Some fake_result, None), fake_trace)
   \<and> map fst (Metadata fake_result)
       = [''analysis_type'', ''total_scenarios'', ''successful_scenarios'', ''failed_scenarios'',
          ''generations'', ''max_fitness_score'', ''artifacts_examined'', ''tool_calls'']
   \<and> map_of (Metadata fake_result) ''avg_fitness_score'' = None
   \<and> CallMarshal (writeSummary_summary fake_env fake_result fake_data) \<in> set fake_trace"
  using Run_metadata_keys [OF fake_run] fake_run
  by (simp add: fake_result_def fake_trace_def)

end
